theory Spec2Isabelle
  imports Main
begin

section \<open>JavaScript values and operators used by the paragraph block\<close>

text \<open>
  The fields of the block's input data and of its configuration are dynamically typed.
  The model represents the primitive values \<open>undefined\<close>, \<open>null\<close>, booleans and
  strings; a field that is absent from an object reads as \<open>undefined\<close>, so an absent field
  is \<open>JUndefined\<close>. Numbers and nested objects are not represented. Strings are lists of
  code units below 256.
\<close>

datatype jsval = JUndefined | JNull | JBool bool | JStr string

datatype error = TypeError | ReferenceError | SyntaxError | InvalidCharacterError

fun truthy :: "jsval \<Rightarrow> bool" where
  "truthy JUndefined = False"
| "truthy JNull = False"
| "truthy (JBool b) = b"
| "truthy (JStr s) = (s \<noteq> [])"

text \<open>The operator \<open>a || b\<close>: the left operand when it is truthy, the right one otherwise.\<close>

definition js_or :: "jsval \<Rightarrow> jsval \<Rightarrow> jsval" where
  "js_or a b = (if truthy a then a else b)"

fun ToString :: "jsval \<Rightarrow> string" where
  "ToString JUndefined = ''undefined''"
| "ToString JNull = ''null''"
| "ToString (JBool b) = (if b then ''true'' else ''false'')"
| "ToString (JStr s) = s"

text \<open>
  The operator \<open>a + b\<close> when at least one operand is a string: both operands are converted
  to strings and concatenated. In \<open>merge\<close> the left operand is the markup read by the
  \<open>data\<close> getter, which is a string.
\<close>

definition string_concat :: "jsval \<Rightarrow> jsval \<Rightarrow> string" where
  "string_concat a b = ToString a @ ToString b"

text \<open>
  \<open>String.prototype.trim\<close> removes white space and line terminators from both ends: tab,
  line feed, vertical tab, form feed, carriage return, space and no-break space among the
  code units below 256.
\<close>

definition js_whitespace :: "char \<Rightarrow> bool" where
  "js_whitespace c = (c \<in> set [CHR 0x09, CHR 0x0A, CHR 0x0B, CHR 0x0C, CHR 0x0D, CHR 0x20, CHR 0xA0])"

definition trim :: "string \<Rightarrow> string" where
  "trim s = rev (dropWhile js_whitespace (rev (dropWhile js_whitespace s)))"


section \<open>The DOM elements the block touches\<close>

text \<open>
  An element is modelled by the properties the block reads and writes. \<open>innerHTML\<close> is
  the markup the element reads back; \<open>classList\<close> is the ordered set of class tokens;
  \<open>keyup_listener\<close> records that \<open>onKeyUp\<close> was registered with \<open>addEventListener\<close>.
\<close>

record element =
  innerHTML :: string
  classList :: "string list"
  contentEditable :: bool
  dataset_placeholder :: "string option"
  style_textAlign :: string
  keyup_listener :: bool

definition createElement :: element where
  "createElement = \<lparr>innerHTML = [], classList = [], contentEditable = False,
     dataset_placeholder = None, style_textAlign = [], keyup_listener = False\<rparr>"

text \<open>
  Assigning to \<open>innerHTML\<close> converts the value to a string; \<open>null\<close> becomes the empty
  string. A browser parses the assigned markup and reads back its own serialisation of it:
  an open element is closed, a bare ampersand is escaped. \<open>set_innerHTML\<close> is the
  assignment of markup that reads back as written, as the empty string and markup read
  from an element do. \<open>set_innerHTML_dom\<close> is the assignment of any markup; the round
  trip of the browser is its parameter \<open>read_back\<close>.
\<close>

definition set_innerHTML :: "jsval \<Rightarrow> element \<Rightarrow> element" where
  "set_innerHTML v el = el\<lparr>innerHTML := (case v of JNull \<Rightarrow> [] | _ \<Rightarrow> ToString v)\<rparr>"

definition set_innerHTML_dom :: "(string \<Rightarrow> string) \<Rightarrow> jsval \<Rightarrow> element \<Rightarrow> element" where
  "set_innerHTML_dom read_back v el =
     el\<lparr>innerHTML := read_back (case v of JNull \<Rightarrow> [] | _ \<Rightarrow> ToString v)\<rparr>"

text \<open>
  \<open>textContent\<close> is computed by the browser from the element's content; the model takes
  that computation as the parameter \<open>dom_text\<close>, applied to the markup.
\<close>

definition textContent :: "(string \<Rightarrow> string) \<Rightarrow> element \<Rightarrow> string" where
  "textContent dom_text el = dom_text (innerHTML el)"

text \<open>
  \<open>DOMTokenList\<close>: every token is validated first (an empty token raises \<open>SyntaxError\<close>, a
  token with ASCII white space raises \<open>InvalidCharacterError\<close>); \<open>add\<close> then appends the
  tokens that are not yet present, \<open>toggle\<close> with a \<open>force\<close> argument adds the token when
  \<open>force\<close> is true and removes it otherwise.
\<close>

definition ascii_whitespace :: "char \<Rightarrow> bool" where
  "ascii_whitespace c = (c \<in> set [CHR 0x09, CHR 0x0A, CHR 0x0C, CHR 0x0D, CHR 0x20])"

fun validate_tokens :: "string list \<Rightarrow> error option" where
  "validate_tokens [] = None"
| "validate_tokens (t # ts) =
     (if t = [] then Some SyntaxError
      else if list_ex ascii_whitespace t then Some InvalidCharacterError
      else validate_tokens ts)"

definition append_token :: "string \<Rightarrow> string list \<Rightarrow> string list" where
  "append_token t cl = (if t \<in> set cl then cl else cl @ [t])"

definition classList_add :: "string list \<Rightarrow> string list \<Rightarrow> error + string list" where
  "classList_add tokens cl =
     (case validate_tokens tokens of
        Some e \<Rightarrow> Inl e
      | None \<Rightarrow> Inr (fold append_token tokens cl))"

definition classList_toggle :: "string \<Rightarrow> bool \<Rightarrow> string list \<Rightarrow> error + string list" where
  "classList_toggle t force cl =
     (case validate_tokens [t] of
        Some e \<Rightarrow> Inl e
      | None \<Rightarrow> Inr (if force then append_token t cl else removeAll t cl))"


section \<open>Data, configuration and host API\<close>

text \<open>\<open>ParagraphData\<close>: the tool's input and output format, \<open>{text, alignment}\<close>.\<close>

record ParagraphData =
  pd_text :: jsval
  pd_alignment :: jsval

text \<open>The empty object literal \<open>{}\<close>: both fields read as \<open>undefined\<close>.\<close>

definition empty_data :: ParagraphData where
  "empty_data = \<lparr>pd_text = JUndefined, pd_alignment = JUndefined\<rparr>"

record ParagraphConfig =
  placeholder :: jsval
  preserveBlank :: jsval
  defaultAlignment :: jsval

text \<open>
  The host API: the two style constants the block reads from \<open>api.styles\<close> and the
  translation function \<open>api.i18n.t\<close>.
\<close>

record host_api =
  styles_block :: string
  styles_settingsButtonActive :: string
  i18n_t :: "jsval \<Rightarrow> jsval"

text \<open>
  \<open>this._CSS\<close>. Its \<open>alignment\<close> member is the object literal with the four keys; reading
  another key gives \<open>undefined\<close>, except for the property names every object inherits from
  \<open>Object.prototype\<close>, which give a function or an object.
\<close>

record css =
  css_block :: string
  css_wrapper :: string
  css_settingsButtonActive :: string

datatype property = Own string | Inherited | Absent

definition object_prototype_names :: "string list" where
  "object_prototype_names =
     [''constructor'', ''hasOwnProperty'', ''isPrototypeOf'', ''propertyIsEnumerable'',
      ''toLocaleString'', ''toString'', ''valueOf'', ''__proto__'', ''__defineGetter__'',
      ''__defineSetter__'', ''__lookupGetter__'', ''__lookupSetter__'']"

definition css_alignment :: "string \<Rightarrow> property" where
  "css_alignment k =
     (if k = ''left'' then Own ''ce-paragraph--left''
      else if k = ''center'' then Own ''ce-paragraph--center''
      else if k = ''right'' then Own ''ce-paragraph--right''
      else if k = ''justify'' then Own ''ce-paragraph--justify''
      else if k \<in> set object_prototype_names then Inherited
      else Absent)"

text \<open>
  The class token a looked-up property is converted to. The text of an inherited function
  or object depends on the engine but always contains a space, so that the token is
  rejected; a fixed text with a space stands for it.
\<close>

fun property_token :: "property \<Rightarrow> string" where
  "property_token (Own s) = s"
| "property_token Absent = ''undefined''"
| "property_token Inherited = ''function () { [native code] }''"

text \<open>
  The block instance; a field \<open>priv_x\<close> is the property \<open>this._x\<close>. \<open>_tunesButtons\<close> is assigned once and never changed; it is the
  constant \<open>tunesButtons\<close> of each class below. The object stored in \<open>_data\<close> is held by
  value.
\<close>

record block =
  api :: host_api
  config :: ParagraphConfig
  readOnly :: jsval
  priv_CSS :: css
  priv_placeholder :: jsval
  priv_data :: ParagraphData
  priv_element :: element
  priv_preserveBlank :: jsval

record KeyboardEvent =
  code :: string

text \<open>A paste event; \<open>detail_data\<close> is the pasted element \<open>event.detail.data\<close>.\<close>

record PasteEvent =
  detail_data :: element


section \<open>Class ParagraphEx (src/index.js)\<close>

definition ParagraphEx_DEFAULT_PLACEHOLDER :: string where
  "ParagraphEx_DEFAULT_PLACEHOLDER = []"

definition ParagraphEx_DEFAULT_ALIGNMENT :: string where
  "ParagraphEx_DEFAULT_ALIGNMENT = ''left''"

text \<open>The getter \<open>data\<close>: copies the element's markup into \<open>_data.text\<close> and returns \<open>_data\<close>.\<close>

definition ParagraphEx_get_data :: "block \<Rightarrow> ParagraphData \<times> block" where
  "ParagraphEx_get_data b =
     (let d = (priv_data b)\<lparr>pd_text := JStr (innerHTML (priv_element b))\<rparr>
      in (d, b\<lparr>priv_data := d\<rparr>))"

text \<open>
  The setter \<open>data\<close>: \<open>this._data = data || {}\<close>, then the markup becomes
  \<open>this._data.text || ''\<close>. The argument \<open>None\<close> is \<open>undefined\<close> or \<open>null\<close>.
\<close>

definition ParagraphEx_set_data :: "ParagraphData option \<Rightarrow> block \<Rightarrow> block" where
  "ParagraphEx_set_data d b =
     (let b1 = b\<lparr>priv_data := (case d of None \<Rightarrow> empty_data | Some x \<Rightarrow> x)\<rparr>
      in b1\<lparr>priv_element := set_innerHTML (js_or (pd_text (priv_data b1)) (JStr [])) (priv_element b1)\<rparr>)"

text \<open>
  \<open>drawView\<close> runs inside the constructor, before \<open>_element\<close> exists; it reads \<open>_CSS\<close>,
  \<open>_data\<close>, \<open>api\<close>, \<open>_placeholder\<close> and \<open>readOnly\<close>.
\<close>

definition ParagraphEx_drawView ::
  "css \<Rightarrow> ParagraphData \<Rightarrow> host_api \<Rightarrow> jsval \<Rightarrow> jsval \<Rightarrow> error + element" where
  "ParagraphEx_drawView c d a ph ro =
     (let el0 = createElement
      in case classList_add
             [css_wrapper c, css_block c,
              property_token (css_alignment (ToString (pd_alignment d)))] (classList el0) of
           Inl e \<Rightarrow> Inl e
         | Inr cl \<Rightarrow>
             (let el1 = el0\<lparr>classList := cl, contentEditable := False,
                               dataset_placeholder := Some (ToString (i18n_t a ph))\<rparr>
              in if \<not> truthy ro
                 then Inr (el1\<lparr>contentEditable := True, keyup_listener := True\<rparr>)
                 else Inr el1))"

text \<open>
  The constructor. \<open>None\<close> for \<open>data\<close> or \<open>config\<close> is \<open>undefined\<close> or \<open>null\<close>, whose
  property reads raise \<open>TypeError\<close>.
\<close>

definition ParagraphEx_constructor ::
  "ParagraphData option \<Rightarrow> ParagraphConfig option \<Rightarrow> host_api \<Rightarrow> jsval \<Rightarrow> error + block" where
  "ParagraphEx_constructor data cfg a ro =
     (let c = \<lparr>css_block = styles_block a, css_wrapper = ''ce-paragraph'',
                css_settingsButtonActive = styles_settingsButtonActive a\<rparr>
      in case cfg of
           None \<Rightarrow> Inl TypeError
         | Some cf \<Rightarrow>
             (let ph = (if truthy (placeholder cf) then placeholder cf
                        else JStr ParagraphEx_DEFAULT_PLACEHOLDER)
              in case data of
                   None \<Rightarrow> Inl TypeError
                 | Some dt \<Rightarrow>
                     (let d0 = \<lparr>pd_text = js_or (pd_text dt) (JStr []),
                                 pd_alignment =
                                   js_or (js_or (pd_alignment dt) (defaultAlignment cf))
                                     (JStr ParagraphEx_DEFAULT_ALIGNMENT)\<rparr>
                      in case ParagraphEx_drawView c d0 a ph ro of
                           Inl e \<Rightarrow> Inl e
                         | Inr el \<Rightarrow>
                             Inr (ParagraphEx_set_data data
                                   \<lparr>api = a, config = cf, readOnly = ro, priv_CSS = c,
                                    priv_placeholder = ph, priv_data = d0, priv_element = el,
                                    priv_preserveBlank =
                                      (if preserveBlank cf \<noteq> JUndefined then preserveBlank cf
                                       else JBool False)\<rparr>))))"

definition ParagraphEx_onKeyUp :: "(string \<Rightarrow> string) \<Rightarrow> KeyboardEvent \<Rightarrow> block \<Rightarrow> block" where
  "ParagraphEx_onKeyUp dom_text e b =
     (if code e \<noteq> ''Backspace'' \<and> code e \<noteq> ''Delete'' then b
      else if textContent dom_text (priv_element b) = []
           then b\<lparr>priv_element := set_innerHTML (JStr []) (priv_element b)\<rparr>
           else b)"

definition ParagraphEx_render :: "block \<Rightarrow> element" where
  "ParagraphEx_render b = priv_element b"

text \<open>
  \<open>merge\<close>: the getter runs before \<open>data.text\<close> is read, so its update of \<open>_data.text\<close>
  remains when \<open>data\<close> is \<open>undefined\<close> and the read raises.
\<close>

definition ParagraphEx_merge :: "ParagraphData option \<Rightarrow> block \<Rightarrow> (error + unit) \<times> block" where
  "ParagraphEx_merge data b =
     (let (cur, b1) = ParagraphEx_get_data b
      in case data of
           None \<Rightarrow> (Inl TypeError, b1)
         | Some d \<Rightarrow>
             (let t = string_concat (pd_text cur) (pd_text d);
                  (cur2, b2) = ParagraphEx_get_data b1
              in (Inr (),
                  ParagraphEx_set_data
                    (Some \<lparr>pd_text = JStr t, pd_alignment = pd_alignment cur2\<rparr>) b2)))"

text \<open>
  \<open>merge\<close> writes markup supplied by the caller. The setter and \<open>merge\<close> with the
  browser's round trip of the assigned markup as the parameter \<open>read_back\<close>:
\<close>

definition ParagraphEx_set_data_dom ::
  "(string \<Rightarrow> string) \<Rightarrow> ParagraphData option \<Rightarrow> block \<Rightarrow> block" where
  "ParagraphEx_set_data_dom read_back d b =
     (let b1 = b\<lparr>priv_data := (case d of None \<Rightarrow> empty_data | Some x \<Rightarrow> x)\<rparr>
      in b1\<lparr>priv_element :=
              set_innerHTML_dom read_back (js_or (pd_text (priv_data b1)) (JStr []))
                (priv_element b1)\<rparr>)"

definition ParagraphEx_merge_dom ::
  "(string \<Rightarrow> string) \<Rightarrow> ParagraphData option \<Rightarrow> block \<Rightarrow> (error + unit) \<times> block" where
  "ParagraphEx_merge_dom read_back data b =
     (let (cur, b1) = ParagraphEx_get_data b
      in case data of
           None \<Rightarrow> (Inl TypeError, b1)
         | Some d \<Rightarrow>
             (let t = string_concat (pd_text cur) (pd_text d);
                  (cur2, b2) = ParagraphEx_get_data b1
              in (Inr (),
                  ParagraphEx_set_data_dom read_back
                    (Some \<lparr>pd_text = JStr t, pd_alignment = pd_alignment cur2\<rparr>) b2)))"

text \<open>
  \<open>validate\<close>: \<open>savedData.text.trim()\<close> raises \<open>TypeError\<close> unless \<open>savedData\<close> is an object
  whose \<open>text\<close> is a string.
\<close>

definition ParagraphEx_validate :: "ParagraphData option \<Rightarrow> block \<Rightarrow> error + bool" where
  "ParagraphEx_validate savedData b =
     (case savedData of
        None \<Rightarrow> Inl TypeError
      | Some d \<Rightarrow>
          (case pd_text d of
             JStr s \<Rightarrow> Inr (\<not> (trim s = [] \<and> \<not> truthy (priv_preserveBlank b)))
           | _ \<Rightarrow> Inl TypeError))"

definition ParagraphEx_save :: "element \<Rightarrow> block \<Rightarrow> ParagraphData \<times> block" where
  "ParagraphEx_save toolsContent b =
     (let (cur, b1) = ParagraphEx_get_data b
      in (\<lparr>pd_text = JStr (innerHTML toolsContent), pd_alignment = pd_alignment cur\<rparr>, b1))"

definition ParagraphEx_onPaste :: "PasteEvent \<Rightarrow> block \<Rightarrow> block" where
  "ParagraphEx_onPaste event b =
     ParagraphEx_set_data
       (Some \<lparr>pd_text = JStr (innerHTML (detail_data event)),
              pd_alignment =
                js_or (js_or (JStr (style_textAlign (detail_data event)))
                         (defaultAlignment (config b)))
                  (JStr ParagraphEx_DEFAULT_ALIGNMENT)\<rparr>) b"


text \<open>
  The alignment controls of the settings menu. \<open>icon\<close> holds the name of the imported
  icon, standing for its markup.
\<close>

record tuneEx =
  ex_title :: string
  ex_value :: string
  ex_icon :: string

definition ParagraphEx_tunesButtons :: "tuneEx list" where
  "ParagraphEx_tunesButtons =
     [\<lparr>ex_title = ''Align Left'', ex_value = ''left'', ex_icon = ''IconAlignLeft''\<rparr>,
      \<lparr>ex_title = ''Align Center'', ex_value = ''center'', ex_icon = ''IconAlignCenter''\<rparr>,
      \<lparr>ex_title = ''Align Right'', ex_value = ''right'', ex_icon = ''IconAlignRight''\<rparr>,
      \<lparr>ex_title = ''Justify'', ex_value = ''justify'', ex_icon = ''IconAlignJustify''\<rparr>]"

text \<open>
  The getter \<open>currentAlignment\<close> returns the control whose value is \<open>_data.alignment\<close>, or
  the string \<open>DEFAULT_ALIGNMENT\<close> when there is none. \<open>current_value\<close> reads the property
  \<open>value\<close> of the result; a string has no such property.
\<close>

definition ParagraphEx_currentAlignment :: "block \<Rightarrow> tuneEx + string" where
  "ParagraphEx_currentAlignment b =
     (case find (\<lambda>alignmentItem. JStr (ex_value alignmentItem) = pd_alignment (priv_data b))
             ParagraphEx_tunesButtons of
        Some alignment \<Rightarrow> Inl alignment
      | None \<Rightarrow> Inr ParagraphEx_DEFAULT_ALIGNMENT)"

fun current_value :: "tuneEx + string \<Rightarrow> jsval" where
  "current_value (Inl t) = JStr (ex_value t)"
| "current_value (Inr s) = JUndefined"

text \<open>
  An entry of the settings menu. \<open>onActivate\<close> is the closure
  \<open>() => this.setAlignment(tune.value)\<close>; the entry stores the value it passes.
\<close>

record menu_item =
  mi_icon :: string
  mi_label :: jsval
  mi_onActivate :: string
  mi_closeOnActivate :: bool
  mi_isActive :: bool

definition ParagraphEx_renderSettings :: "block \<Rightarrow> menu_item list" where
  "ParagraphEx_renderSettings b =
     map (\<lambda>tune. \<lparr>mi_icon = ex_icon tune,
                   mi_label = i18n_t (api b) (JStr (ex_title tune)),
                   mi_onActivate = ex_value tune,
                   mi_closeOnActivate = True,
                   mi_isActive =
                     (current_value (ParagraphEx_currentAlignment b) = JStr (ex_value tune))\<rparr>)
       ParagraphEx_tunesButtons"

text \<open>
  \<open>setAlignment\<close>. The identifier \<open>name\<close> in its second statement is declared neither in
  the method nor in the module: it refers to the global binding of that name. The
  parameter \<open>global_name\<close> is that binding: \<open>Some s\<close> where it exists (in a browser it is
  \<open>window.name\<close>, a string), \<open>None\<close> where it does not, and the read raises
  \<open>ReferenceError\<close> after the data has been assigned.
\<close>

definition ParagraphEx_setAlignment ::
  "string option \<Rightarrow> jsval \<Rightarrow> block \<Rightarrow> (error + unit) \<times> block" where
  "ParagraphEx_setAlignment global_name alignment b =
     (let (cur, b1) = ParagraphEx_get_data b;
          b2 = ParagraphEx_set_data (Some \<lparr>pd_text = pd_text cur, pd_alignment = alignment\<rparr>) b1
      in case global_name of
           None \<Rightarrow> (Inl ReferenceError, b2)
         | Some nm \<Rightarrow>
             (let (cur3, b3) = ParagraphEx_get_data b2
              in case classList_toggle (property_token (css_alignment nm))
                        (JStr nm = pd_alignment cur3) (classList (priv_element b3)) of
                   Inl e \<Rightarrow> (Inl e, b3)
                 | Inr cl \<Rightarrow>
                     (Inr (), b3\<lparr>priv_element := (priv_element b3)\<lparr>classList := cl\<rparr>\<rparr>)))"

text \<open>Activating a menu entry calls its \<open>onActivate\<close>.\<close>

definition ParagraphEx_activate ::
  "string option \<Rightarrow> menu_item \<Rightarrow> block \<Rightarrow> (error + unit) \<times> block" where
  "ParagraphEx_activate global_name item b =
     ParagraphEx_setAlignment global_name (JStr (mi_onActivate item)) b"


section \<open>Class Paragraph (the second variant of the source)\<close>

record alignments =
  al_left :: string
  al_center :: string
  al_right :: string
  al_justify :: string

definition Paragraph_DEFAULT_PLACEHOLDER :: string where
  "Paragraph_DEFAULT_PLACEHOLDER = []"

definition Paragraph_ALIGNMENTS :: alignments where
  "Paragraph_ALIGNMENTS =
     \<lparr>al_left = ''left'', al_center = ''center'', al_right = ''right'', al_justify = ''justify''\<rparr>"

definition Paragraph_DEFAULT_ALIGNMENT :: string where
  "Paragraph_DEFAULT_ALIGNMENT = al_left Paragraph_ALIGNMENTS"

definition Paragraph_get_data :: "block \<Rightarrow> ParagraphData \<times> block" where
  "Paragraph_get_data b =
     (let d = (priv_data b)\<lparr>pd_text := JStr (innerHTML (priv_element b))\<rparr>
      in (d, b\<lparr>priv_data := d\<rparr>))"

definition Paragraph_set_data :: "ParagraphData option \<Rightarrow> block \<Rightarrow> block" where
  "Paragraph_set_data d b =
     (let b1 = b\<lparr>priv_data := (case d of None \<Rightarrow> empty_data | Some x \<Rightarrow> x)\<rparr>
      in b1\<lparr>priv_element :=
              set_innerHTML (js_or (pd_text (priv_data b1)) (JStr [])) (priv_element b1)\<rparr>)"

definition Paragraph_drawView ::
  "css \<Rightarrow> ParagraphData \<Rightarrow> host_api \<Rightarrow> jsval \<Rightarrow> jsval \<Rightarrow> error + element" where
  "Paragraph_drawView c d a ph ro =
     (let el0 = createElement
      in case classList_add
             [css_wrapper c, css_block c,
              property_token (css_alignment (ToString (pd_alignment d)))] (classList el0) of
           Inl e \<Rightarrow> Inl e
         | Inr cl \<Rightarrow>
             (let el1 = el0\<lparr>classList := cl, contentEditable := False,
                               dataset_placeholder := Some (ToString (i18n_t a ph))\<rparr>
              in if \<not> truthy ro
                 then Inr (el1\<lparr>contentEditable := True, keyup_listener := True\<rparr>)
                 else Inr el1))"

definition Paragraph_constructor ::
  "ParagraphData option \<Rightarrow> ParagraphConfig option \<Rightarrow> host_api \<Rightarrow> jsval \<Rightarrow> error + block" where
  "Paragraph_constructor data cfg a ro =
     (let c = \<lparr>css_block = styles_block a, css_wrapper = ''ce-paragraph'',
                css_settingsButtonActive = styles_settingsButtonActive a\<rparr>
      in case cfg of
           None \<Rightarrow> Inl TypeError
         | Some cf \<Rightarrow>
             (let ph = (if truthy (placeholder cf) then placeholder cf
                        else JStr Paragraph_DEFAULT_PLACEHOLDER)
              in case data of
                   None \<Rightarrow> Inl TypeError
                 | Some dt \<Rightarrow>
                     (let d0 = \<lparr>pd_text = js_or (pd_text dt) (JStr []),
                                 pd_alignment =
                                   js_or (js_or (pd_alignment dt) (defaultAlignment cf))
                                     (JStr Paragraph_DEFAULT_ALIGNMENT)\<rparr>
                      in case Paragraph_drawView c d0 a ph ro of
                           Inl e \<Rightarrow> Inl e
                         | Inr el \<Rightarrow>
                             Inr (Paragraph_set_data data
                                   \<lparr>api = a, config = cf, readOnly = ro, priv_CSS = c,
                                    priv_placeholder = ph, priv_data = d0, priv_element = el,
                                    priv_preserveBlank =
                                      (if preserveBlank cf \<noteq> JUndefined then preserveBlank cf
                                       else JBool False)\<rparr>))))"

definition Paragraph_onKeyUp :: "(string \<Rightarrow> string) \<Rightarrow> KeyboardEvent \<Rightarrow> block \<Rightarrow> block" where
  "Paragraph_onKeyUp dom_text e b =
     (if code e \<noteq> ''Backspace'' \<and> code e \<noteq> ''Delete'' then b
      else if textContent dom_text (priv_element b) = []
           then b\<lparr>priv_element := set_innerHTML (JStr []) (priv_element b)\<rparr>
           else b)"

definition Paragraph_render :: "block \<Rightarrow> element" where
  "Paragraph_render b = priv_element b"

definition Paragraph_merge :: "ParagraphData option \<Rightarrow> block \<Rightarrow> (error + unit) \<times> block" where
  "Paragraph_merge data b =
     (let (cur, b1) = Paragraph_get_data b
      in case data of
           None \<Rightarrow> (Inl TypeError, b1)
         | Some d \<Rightarrow>
             (let t = string_concat (pd_text cur) (pd_text d);
                  (cur2, b2) = Paragraph_get_data b1
              in (Inr (),
                  Paragraph_set_data
                    (Some \<lparr>pd_text = JStr t, pd_alignment = pd_alignment cur2\<rparr>) b2)))"

definition Paragraph_validate :: "ParagraphData option \<Rightarrow> block \<Rightarrow> error + bool" where
  "Paragraph_validate savedData b =
     (case savedData of
        None \<Rightarrow> Inl TypeError
      | Some d \<Rightarrow>
          (case pd_text d of
             JStr s \<Rightarrow> Inr (\<not> (trim s = [] \<and> \<not> truthy (priv_preserveBlank b)))
           | _ \<Rightarrow> Inl TypeError))"

definition Paragraph_save :: "element \<Rightarrow> block \<Rightarrow> ParagraphData \<times> block" where
  "Paragraph_save toolsContent b =
     (let (cur, b1) = Paragraph_get_data b
      in (\<lparr>pd_text = JStr (innerHTML toolsContent), pd_alignment = pd_alignment cur\<rparr>, b1))"

definition Paragraph_onPaste :: "PasteEvent \<Rightarrow> block \<Rightarrow> block" where
  "Paragraph_onPaste event b =
     Paragraph_set_data
       (Some \<lparr>pd_text = JStr (innerHTML (detail_data event)),
              pd_alignment =
                js_or (js_or (JStr (style_textAlign (detail_data event)))
                         (defaultAlignment (config b)))
                  (JStr Paragraph_DEFAULT_ALIGNMENT)\<rparr>) b"

record tune =
  tn_name :: string
  tn_icon :: string

definition Paragraph_tunesButtons :: "tune list" where
  "Paragraph_tunesButtons =
     [\<lparr>tn_name = ''left'', tn_icon = ''IconAlignLeft''\<rparr>,
      \<lparr>tn_name = ''center'', tn_icon = ''IconAlignCenter''\<rparr>,
      \<lparr>tn_name = ''right'', tn_icon = ''IconAlignRight''\<rparr>,
      \<lparr>tn_name = ''justify'', tn_icon = ''IconAlignJustify''\<rparr>]"

text \<open>
  \<open>renderSettings\<close> builds one button per control; the result is the list of the wrapper's
  children. \<open>Paragraph_renderButton\<close> is the body of the \<open>map\<close> callback.
\<close>

definition Paragraph_renderButton :: "tune \<Rightarrow> block \<Rightarrow> (error + element) \<times> block" where
  "Paragraph_renderButton tn b =
     (let button0 = createElement
      in case classList_add [''cdx-settings-button''] (classList button0) of
           Inl e \<Rightarrow> (Inl e, b)
         | Inr cl \<Rightarrow>
             (let button1 = set_innerHTML (JStr (tn_icon tn)) (button0\<lparr>classList := cl\<rparr>);
                  (cur, b1) = Paragraph_get_data b
              in case classList_toggle (css_settingsButtonActive (priv_CSS b1))
                        (JStr (tn_name tn) = js_or (pd_alignment cur) (defaultAlignment (config b1)))
                        (classList button1) of
                   Inl e \<Rightarrow> (Inl e, b1)
                 | Inr cl2 \<Rightarrow> (Inr (button1\<lparr>classList := cl2\<rparr>), b1)))"

fun Paragraph_renderButtons :: "tune list \<Rightarrow> block \<Rightarrow> (error + element list) \<times> block" where
  "Paragraph_renderButtons [] b = (Inr [], b)"
| "Paragraph_renderButtons (tn # tns) b =
     (case Paragraph_renderButton tn b of
        (Inl e, b1) \<Rightarrow> (Inl e, b1)
      | (Inr button, b1) \<Rightarrow>
          (case Paragraph_renderButtons tns b1 of
             (Inl e, b2) \<Rightarrow> (Inl e, b2)
           | (Inr buttons, b2) \<Rightarrow> (Inr (button # buttons), b2)))"

definition Paragraph_renderSettings :: "block \<Rightarrow> (error + element list) \<times> block" where
  "Paragraph_renderSettings b = Paragraph_renderButtons Paragraph_tunesButtons b"

definition Paragraph_toggleTune :: "string \<Rightarrow> block \<Rightarrow> block" where
  "Paragraph_toggleTune tn b =
     (let (cur, b1) = Paragraph_get_data b
      in if pd_alignment cur = JStr tn
         then (let (cur2, b2) = Paragraph_get_data b1
               in b2\<lparr>priv_data := (priv_data b2)\<lparr>pd_alignment := defaultAlignment (config b2)\<rparr>\<rparr>)
         else (let (cur2, b2) = Paragraph_get_data b1
               in b2\<lparr>priv_data := (priv_data b2)\<lparr>pd_alignment := JStr tn\<rparr>\<rparr>))"

text \<open>
  The inner \<open>forEach\<close> of the click listener, from index \<open>i\<close>: each button's active class
  and the root element's alignment class are toggled on the comparison of the control's
  name with the current alignment. Reading a control beyond the end of \<open>_tunesButtons\<close>
  raises \<open>TypeError\<close>.
\<close>

fun Paragraph_updateButtons ::
  "nat \<Rightarrow> element list \<Rightarrow> block \<Rightarrow> (error + element list) \<times> block" where
  "Paragraph_updateButtons i [] b = (Inr [], b)"
| "Paragraph_updateButtons i (el # els) b =
     (if length Paragraph_tunesButtons \<le> i then (Inl TypeError, b)
      else
        (let nm = tn_name (Paragraph_tunesButtons ! i);
             (cur, b1) = Paragraph_get_data b
         in case classList_toggle (css_settingsButtonActive (priv_CSS b1))
                   (JStr nm = pd_alignment cur) (classList el) of
              Inl e \<Rightarrow> (Inl e, b1)
            | Inr cl \<Rightarrow>
                (let (cur2, b2) = Paragraph_get_data b1
                 in case classList_toggle (property_token (css_alignment nm))
                           (JStr nm = pd_alignment cur2) (classList (priv_element b2)) of
                      Inl e \<Rightarrow> (Inl e, b2)
                    | Inr rcl \<Rightarrow>
                        (case Paragraph_updateButtons (Suc i) els
                                (b2\<lparr>priv_element := (priv_element b2)\<lparr>classList := rcl\<rparr>\<rparr>) of
                           (Inl e, b3) \<Rightarrow> (Inl e, b3)
                         | (Inr els', b3) \<Rightarrow> (Inr (el\<lparr>classList := cl\<rparr> # els'), b3)))))"

text \<open>The click listener of the button at \<open>index\<close>, on the buttons \<open>elements\<close>.\<close>

definition Paragraph_click ::
  "nat \<Rightarrow> element list \<Rightarrow> block \<Rightarrow> (error + element list) \<times> block" where
  "Paragraph_click index elements b =
     (if length Paragraph_tunesButtons \<le> index then (Inl TypeError, b)
      else Paragraph_updateButtons 0 elements
             (Paragraph_toggleTune (tn_name (Paragraph_tunesButtons ! index)) b))"


section \<open>Scenarios of the specification and example inputs\<close>

text \<open>The four alignment values of the specification.\<close>

definition alignment_names :: "string list" where
  "alignment_names = [''left'', ''center'', ''right'', ''justify'']"

text \<open>Constructing a block and immediately calling \<open>save\<close> on the rendered element.\<close>

definition construct_and_save ::
  "ParagraphData option \<Rightarrow> ParagraphConfig option \<Rightarrow> host_api \<Rightarrow> jsval \<Rightarrow> error + ParagraphData" where
  "construct_and_save data cfg a ro =
     map_sum id (\<lambda>b. fst (ParagraphEx_save (ParagraphEx_render b) b))
       (ParagraphEx_constructor data cfg a ro)"

text \<open>
  A host API with the class names Editor.js supplies and an identity translation; a
  configuration with every option omitted; and the block with the given markup and
  alignment that such a host holds.
\<close>

definition example_api :: host_api where
  "example_api = \<lparr>styles_block = ''cdx-block'',
     styles_settingsButtonActive = ''cdx-settings-button--active'', i18n_t = (\<lambda>v. v)\<rparr>"

definition example_config :: ParagraphConfig where
  "example_config =
     \<lparr>placeholder = JUndefined, preserveBlank = JUndefined, defaultAlignment = JUndefined\<rparr>"

definition example_block :: "string \<Rightarrow> jsval \<Rightarrow> block" where
  "example_block markup al =
     \<lparr>api = example_api, config = example_config, readOnly = JBool False,
      priv_CSS = \<lparr>css_block = ''cdx-block'', css_wrapper = ''ce-paragraph'',
                   css_settingsButtonActive = ''cdx-settings-button--active''\<rparr>,
      priv_placeholder = JStr [],
      priv_data = \<lparr>pd_text = JStr markup, pd_alignment = al\<rparr>,
      priv_element = \<lparr>innerHTML = markup,
                       classList = [''ce-paragraph'', ''cdx-block'', ''ce-paragraph--left''],
                       contentEditable = True, dataset_placeholder = Some [],
                       style_textAlign = [], keyup_listener = True\<rparr>,
      priv_preserveBlank = JBool False\<rparr>"

text \<open>
  The round trip of a browser on the markup written in the examples: the open \<open>b\<close>
  element of \<open>A<b>B\<close> is closed, and the other example markup reads back as written.
\<close>

definition example_read_back :: "string \<Rightarrow> string" where
  "example_read_back s = (if s = ''A<b>B'' then ''A<b>B</b>'' else s)"

text \<open>
  The names of the controls whose button carries the active class, and the alignment names
  whose modifier class is on an element.
\<close>

definition active_controls :: "string \<Rightarrow> element list \<Rightarrow> string list" where
  "active_controls act buttons =
     map (tn_name \<circ> fst)
       (filter (\<lambda>(tn, el). act \<in> set (classList el)) (zip Paragraph_tunesButtons buttons))"

definition root_alignments :: "element \<Rightarrow> string list" where
  "root_alignments el =
     filter (\<lambda>n. property_token (css_alignment n) \<in> set (classList el)) alignment_names"

text \<open>Opening the settings panel and clicking the control at \<open>index\<close>.\<close>

definition Paragraph_click_after_render :: "nat \<Rightarrow> block \<Rightarrow> (error + element list) \<times> block" where
  "Paragraph_click_after_render index b =
     (case Paragraph_renderSettings b of
        (Inl e, b1) \<Rightarrow> (Inl e, b1)
      | (Inr buttons, b1) \<Rightarrow> Paragraph_click index buttons b1)"

text \<open>
  Four settings buttons without the active class, the menu entry of the control
  \<open>right\<close>, and the example block under a configuration with the default alignment
  \<open>center\<close>.
\<close>

definition example_buttons :: "element list" where
  "example_buttons = replicate 4 (createElement\<lparr>classList := [''cdx-settings-button'']\<rparr>)"

definition example_item :: menu_item where
  "example_item = \<lparr>mi_icon = ''IconAlignRight'', mi_label = JStr ''Align Right'',
     mi_onActivate = ''right'', mi_closeOnActivate = True, mi_isActive = False\<rparr>"

definition example_block_centered :: block where
  "example_block_centered =
     (example_block ''A'' (JStr ''left''))\<lparr>config := example_config\<lparr>defaultAlignment := JStr ''center''\<rparr>\<rparr>"


section \<open>Properties\<close>

lemmas data_defs =
  ParagraphEx_get_data_def ParagraphEx_set_data_def set_innerHTML_def js_or_def Let_def

lemma example_constructed:
  "ParagraphEx_constructor (Some \<lparr>pd_text = JStr ''A'', pd_alignment = JStr ''left''\<rparr>)
     (Some example_config) example_api (JBool False) = Inr (example_block ''A'' (JStr ''left''))"
  by (simp add: ParagraphEx_constructor_def ParagraphEx_drawView_def classList_add_def
      append_token_def createElement_def css_alignment_def example_block_def example_api_def
      example_config_def data_defs ParagraphEx_DEFAULT_PLACEHOLDER_def
      ParagraphEx_DEFAULT_ALIGNMENT_def ascii_whitespace_def)

subsection \<open>Class tokens and the constructor\<close>

lemma set_append_token: "set (append_token t cl) = insert t (set cl)"
  by (auto simp: append_token_def)

lemma alignment_tokens_valid:
  "validate_tokens [''ce-paragraph--left''] = None"
  "validate_tokens [''ce-paragraph--center''] = None"
  "validate_tokens [''ce-paragraph--right''] = None"
  "validate_tokens [''ce-paragraph--justify''] = None"
  by (simp_all add: ascii_whitespace_def)

lemma validate_tokens_three:
  "validate_tokens [x] = None \<Longrightarrow> validate_tokens [y] = None \<Longrightarrow>
     validate_tokens [z] = None \<Longrightarrow> validate_tokens [x, y, z] = None"
  by (simp split: if_splits)

lemma wrapper_token_valid: "validate_tokens [''ce-paragraph''] = None"
  by (simp add: ascii_whitespace_def)

lemma ParagraphEx_constructor_Some:
  "ParagraphEx_constructor (Some dt) (Some cf) a ro =
     (case ParagraphEx_drawView
             \<lparr>css_block = styles_block a, css_wrapper = ''ce-paragraph'',
              css_settingsButtonActive = styles_settingsButtonActive a\<rparr>
             \<lparr>pd_text = js_or (pd_text dt) (JStr []),
              pd_alignment = js_or (js_or (pd_alignment dt) (defaultAlignment cf))
                               (JStr ParagraphEx_DEFAULT_ALIGNMENT)\<rparr>
             a (if truthy (placeholder cf) then placeholder cf
                else JStr ParagraphEx_DEFAULT_PLACEHOLDER) ro of
        Inl e \<Rightarrow> Inl e
      | Inr el \<Rightarrow>
          Inr (ParagraphEx_set_data (Some dt)
                \<lparr>api = a, config = cf, readOnly = ro,
                 priv_CSS = \<lparr>css_block = styles_block a, css_wrapper = ''ce-paragraph'',
                              css_settingsButtonActive = styles_settingsButtonActive a\<rparr>,
                 priv_placeholder = (if truthy (placeholder cf) then placeholder cf
                                     else JStr ParagraphEx_DEFAULT_PLACEHOLDER),
                 priv_data = \<lparr>pd_text = js_or (pd_text dt) (JStr []),
                              pd_alignment = js_or (js_or (pd_alignment dt) (defaultAlignment cf))
                                               (JStr ParagraphEx_DEFAULT_ALIGNMENT)\<rparr>,
                 priv_element = el,
                 priv_preserveBlank = (if preserveBlank cf \<noteq> JUndefined then preserveBlank cf
                                       else JBool False)\<rparr>))"
  by (simp add: ParagraphEx_constructor_def Let_def)

lemma ParagraphEx_set_data_fields:
  "priv_data (ParagraphEx_set_data (Some dt) b) = dt"
  "config (ParagraphEx_set_data d b) = config b"
  "priv_preserveBlank (ParagraphEx_set_data d b) = priv_preserveBlank b"
  "priv_CSS (ParagraphEx_set_data d b) = priv_CSS b"
  by (simp_all add: ParagraphEx_set_data_def Let_def)

lemma ParagraphEx_constructor_Inr:
  assumes "ParagraphEx_constructor data cfg a ro = Inr b"
  shows "\<exists>dt cf. data = Some dt \<and> cfg = Some cf \<and> priv_data b = dt \<and> config b = cf
           \<and> priv_preserveBlank b =
               (if preserveBlank cf \<noteq> JUndefined then preserveBlank cf else JBool False)"
proof (cases cfg)
  case None
  with assms show ?thesis by (simp add: ParagraphEx_constructor_def)
next
  case cf: (Some cf)
  show ?thesis
  proof (cases data)
    case None
    with assms cf show ?thesis by (simp add: ParagraphEx_constructor_def)
  next
    case (Some dt)
    from assms obtain b0 where b: "b = ParagraphEx_set_data (Some dt) b0"
      and "config b0 = cf"
      and "priv_preserveBlank b0 =
             (if preserveBlank cf \<noteq> JUndefined then preserveBlank cf else JBool False)"
      unfolding cf Some ParagraphEx_constructor_Some
      by (auto split: sum.splits)
    then show ?thesis
      using cf Some by (simp add: ParagraphEx_set_data_fields)
  qed
qed

lemma ParagraphEx_drawView_returns:
  assumes "validate_tokens [css_block c] = None" and "css_wrapper c = ''ce-paragraph''"
    and "pd_alignment d = JStr n" and "n \<in> set alignment_names"
  shows "\<exists>el. ParagraphEx_drawView c d a ph ro = Inr el \<and> innerHTML el = []"
proof -
  from assms(4) have "n = ''left'' \<or> n = ''center'' \<or> n = ''right'' \<or> n = ''justify''"
    by (simp add: alignment_names_def)
  then have "validate_tokens [property_token (css_alignment n)] = None"
    by (elim disjE) (simp_all add: css_alignment_def alignment_tokens_valid
        del: validate_tokens.simps)
  then have "validate_tokens
     [css_wrapper c, css_block c, property_token (css_alignment (ToString (pd_alignment d)))] = None"
    using assms(1)
    by (simp add: validate_tokens_three assms(2,3) wrapper_token_valid del: validate_tokens.simps)
  then show ?thesis
    by (simp add: ParagraphEx_drawView_def classList_add_def createElement_def Let_def)
qed

lemma ParagraphEx_constructor_returns:
  assumes "validate_tokens [styles_block a] = None"
    and "js_or (js_or (pd_alignment dt) (defaultAlignment cf))
           (JStr ParagraphEx_DEFAULT_ALIGNMENT) = JStr n"
    and "n \<in> set alignment_names"
  shows "\<exists>b. ParagraphEx_constructor (Some dt) (Some cf) a ro = Inr b"
proof -
  have "\<exists>el. ParagraphEx_drawView
             \<lparr>css_block = styles_block a, css_wrapper = ''ce-paragraph'',
              css_settingsButtonActive = styles_settingsButtonActive a\<rparr>
             \<lparr>pd_text = js_or (pd_text dt) (JStr []),
              pd_alignment = js_or (js_or (pd_alignment dt) (defaultAlignment cf))
                               (JStr ParagraphEx_DEFAULT_ALIGNMENT)\<rparr>
             a (if truthy (placeholder cf) then placeholder cf
                else JStr ParagraphEx_DEFAULT_PLACEHOLDER) ro = Inr el \<and> innerHTML el = []"
    by (rule ParagraphEx_drawView_returns [where n = n])
       (simp_all add: assms del: validate_tokens.simps)
  then obtain el where el: "ParagraphEx_drawView
             \<lparr>css_block = styles_block a, css_wrapper = ''ce-paragraph'',
              css_settingsButtonActive = styles_settingsButtonActive a\<rparr>
             \<lparr>pd_text = js_or (pd_text dt) (JStr []),
              pd_alignment = js_or (js_or (pd_alignment dt) (defaultAlignment cf))
                               (JStr ParagraphEx_DEFAULT_ALIGNMENT)\<rparr>
             a (if truthy (placeholder cf) then placeholder cf
                else JStr ParagraphEx_DEFAULT_PLACEHOLDER) ro = Inr el"
    by blast
  show ?thesis
    unfolding ParagraphEx_constructor_Some el by simp
qed

lemma ParagraphEx_save_alignment:
  "pd_alignment (fst (ParagraphEx_save el b)) = pd_alignment (priv_data b)"
  by (simp add: ParagraphEx_save_def ParagraphEx_get_data_def Let_def)

subsection \<open>Construction and save\<close>

text \<open>
  Claim C8. For each of the four alignment values, constructing a block whose data carry
  that alignment (with a host block class that is a valid token) returns a block, and
  saving it at once returns the same alignment.
\<close>

theorem alignment_round_trips:
  assumes "n \<in> set alignment_names" and "pd_alignment d = JStr n"
    and "validate_tokens [styles_block a] = None"
  shows "map_sum id pd_alignment (construct_and_save (Some d) (Some cf) a ro) = Inr (JStr n)"
proof -
  from assms(1) have ne: "n \<noteq> []"
    by (auto simp: alignment_names_def)
  then have "js_or (js_or (pd_alignment d) (defaultAlignment cf))
               (JStr ParagraphEx_DEFAULT_ALIGNMENT) = JStr n"
    by (simp add: js_or_def assms(2))
  from ParagraphEx_constructor_returns [OF assms(3) this assms(1)]
  obtain b where b: "ParagraphEx_constructor (Some d) (Some cf) a ro = Inr b"
    by blast
  from ParagraphEx_constructor_Inr [OF b] have "priv_data b = d"
    by simp
  then show ?thesis
    by (simp add: construct_and_save_def b ParagraphEx_save_alignment assms(2))
qed

text \<open>The alignment \<open>right\<close> round-trips with the example host.\<close>

theorem alignment_round_trips_witness:
  "''right'' \<in> set alignment_names
   \<and> validate_tokens [styles_block example_api] = None
   \<and> construct_and_save (Some \<lparr>pd_text = JStr ''A'', pd_alignment = JStr ''right''\<rparr>)
        (Some example_config) example_api (JBool False)
       = Inr \<lparr>pd_text = JStr ''A'', pd_alignment = JStr ''right''\<rparr>"
proof -
  have 1: "''right'' \<in> set alignment_names" by (simp add: alignment_names_def)
  have 2: "validate_tokens [styles_block example_api] = None"
    by (simp add: example_api_def ascii_whitespace_def)
  have 3: "pd_alignment \<lparr>pd_text = JStr ''A'', pd_alignment = JStr ''right''\<rparr> = JStr ''right''"
    by simp
  have 4: "map_sum id pd_text (construct_and_save (Some \<lparr>pd_text = JStr ''A'', pd_alignment = JStr ''right''\<rparr>)
        (Some example_config) example_api (JBool False)) = Inr (JStr ''A'')"
    by (simp add: construct_and_save_def ParagraphEx_constructor_def ParagraphEx_drawView_def classList_add_def
      append_token_def createElement_def css_alignment_def example_api_def
      example_config_def data_defs ParagraphEx_DEFAULT_PLACEHOLDER_def
      ParagraphEx_DEFAULT_ALIGNMENT_def ascii_whitespace_def ParagraphEx_save_def ParagraphEx_render_def)
  from alignment_round_trips [OF 1 3 2, of example_config "JBool False"] 4 1 2 show ?thesis
    by (cases "construct_and_save (Some \<lparr>pd_text = JStr ''A'', pd_alignment = JStr ''right''\<rparr>)
        (Some example_config) example_api (JBool False)") (auto intro: ParagraphData.equality)
qed

text \<open>
  Claim C1. For the data \<open>{}\<close> the claim expects \<open>save\<close> to return the empty text and
  the default alignment. The code returns the empty text, but the alignment \<open>undefined\<close>,
  with or without a configured default: the constructor computes the default into
  \<open>_data\<close>, draws the element with the class of that default, and then replaces
  \<open>_data\<close> by the input object in \<open>this.data = data\<close>.
\<close>

theorem empty_data_saves_undefined_alignment:
  "construct_and_save (Some empty_data) (Some example_config) example_api (JBool False)
     = Inr \<lparr>pd_text = JStr [], pd_alignment = JUndefined\<rparr>
   \<and> construct_and_save (Some empty_data)
       (Some (example_config\<lparr>defaultAlignment := JStr ''center''\<rparr>)) example_api (JBool False)
     = Inr \<lparr>pd_text = JStr [], pd_alignment = JUndefined\<rparr>
   \<and> map_sum id (root_alignments \<circ> priv_element)
       (ParagraphEx_constructor (Some empty_data) (Some example_config) example_api (JBool False))
     = Inr [''left'']"
  by (simp add: construct_and_save_def ParagraphEx_constructor_def ParagraphEx_drawView_def
      classList_add_def append_token_def createElement_def css_alignment_def example_api_def
      empty_data_def example_config_def data_defs ParagraphEx_DEFAULT_PLACEHOLDER_def
      ParagraphEx_DEFAULT_ALIGNMENT_def ascii_whitespace_def ParagraphEx_save_def
      ParagraphEx_render_def root_alignments_def alignment_names_def)

subsection \<open>validate\<close>

text \<open>
  Claim C3. For a block constructed with a configuration whose \<open>preserveBlank\<close> is a
  boolean or omitted, \<open>validate\<close> on saved data with a string \<open>text\<close> returns false
  exactly when the trimmed text is empty and \<open>preserveBlank\<close> is false or omitted, and true
  in every other case.
\<close>

theorem validate_rejects_blank:
  assumes "ParagraphEx_constructor data (Some cf) a ro = Inr b"
    and "preserveBlank cf \<in> set [JUndefined, JBool False, JBool True]"
    and "pd_text savedData = JStr s"
  shows "ParagraphEx_validate (Some savedData) b =
           Inr (\<not> (trim s = [] \<and> preserveBlank cf \<in> set [JUndefined, JBool False]))"
proof -
  from ParagraphEx_constructor_Inr [OF assms(1)]
  have pb: "priv_preserveBlank b =
              (if preserveBlank cf \<noteq> JUndefined then preserveBlank cf else JBool False)"
    by auto
  from assms(2) show ?thesis
    by (auto simp: ParagraphEx_validate_def assms(3) pb)
qed

text \<open>Blank text is rejected and other text accepted when \<open>preserveBlank\<close> is omitted.\<close>

theorem validate_rejects_blank_witness:
  "ParagraphEx_constructor (Some \<lparr>pd_text = JStr ''A'', pd_alignment = JStr ''left''\<rparr>)
       (Some example_config) example_api (JBool False) = Inr (example_block ''A'' (JStr ''left''))
   \<and> preserveBlank example_config \<in> set [JUndefined, JBool False, JBool True]
   \<and> ParagraphEx_validate (Some \<lparr>pd_text = JStr ''  '', pd_alignment = JStr ''left''\<rparr>)
       (example_block ''A'' (JStr ''left'')) = Inr False
   \<and> ParagraphEx_validate (Some \<lparr>pd_text = JStr '' a '', pd_alignment = JStr ''left''\<rparr>)
       (example_block ''A'' (JStr ''left'')) = Inr True"
proof -
  have pb: "preserveBlank example_config \<in> set [JUndefined, JBool False, JBool True]"
    by (simp add: example_config_def)
  have t1: "trim ''  '' = []" and t2: "trim '' a '' \<noteq> []"
    by (simp_all add: trim_def js_whitespace_def)
  from validate_rejects_blank [OF example_constructed pb, of "\<lparr>pd_text = JStr ''  '', pd_alignment = JStr ''left''\<rparr>" "''  ''"]
    validate_rejects_blank [OF example_constructed pb, of "\<lparr>pd_text = JStr '' a '', pd_alignment = JStr ''left''\<rparr>" "'' a ''"]
    example_constructed pb t1 t2
  show ?thesis by (simp add: example_config_def)
qed

text \<open>
  Claim C9. \<open>validate\<close> returns a boolean exactly when \<open>savedData\<close> is an object whose
  \<open>text\<close> is a string; otherwise the unguarded \<open>savedData.text.trim()\<close> raises
  \<open>TypeError\<close>, for instance on the empty object. Both variants of the source behave so.
\<close>

theorem validate_total_iff_text_string:
  "(\<exists>r. ParagraphEx_validate savedData b = Inr r)
     = (\<exists>d s. savedData = Some d \<and> pd_text d = JStr s)
   \<and> (\<exists>r. Paragraph_validate savedData b = Inr r)
     = (\<exists>d s. savedData = Some d \<and> pd_text d = JStr s)
   \<and> ParagraphEx_validate (Some empty_data) b = Inl TypeError
   \<and> Paragraph_validate (Some empty_data) b = Inl TypeError"
  by (auto simp: ParagraphEx_validate_def Paragraph_validate_def empty_data_def
      split: option.splits jsval.splits)

subsection \<open>merge\<close>

lemmas dom_defs =
  ParagraphEx_merge_dom_def ParagraphEx_set_data_dom_def set_innerHTML_dom_def
  ParagraphEx_get_data_def js_or_def string_concat_def Let_def

text \<open>With a round trip that changes no markup, the setter and \<open>merge\<close> are the ones above.\<close>

lemma set_data_dom_unchanged_markup:
  "ParagraphEx_set_data_dom (\<lambda>s. s) d b = ParagraphEx_set_data d b"
  by (simp add: ParagraphEx_set_data_dom_def ParagraphEx_set_data_def set_innerHTML_dom_def
      set_innerHTML_def)

lemma merge_dom_unchanged_markup:
  "ParagraphEx_merge_dom (\<lambda>s. s) data b = ParagraphEx_merge data b"
  unfolding ParagraphEx_merge_dom_def ParagraphEx_merge_def set_data_dom_unchanged_markup ..

text \<open>
  Claim C4, as the claim states it, fails for markup that the browser reads back changed:
  merging \<open>{text: "<b>B"}\<close> into a block whose text is "A" saves \<open>A<b>B</b>\<close>, which is
  not the concatenation \<open>A<b>B\<close>.
\<close>

theorem merge_saves_serialised_markup:
  "fst (ParagraphEx_merge_dom example_read_back
          (Some \<lparr>pd_text = JStr ''<b>B'', pd_alignment = JUndefined\<rparr>)
          (example_block ''A'' (JStr ''center''))) = Inr ()
   \<and> fst (ParagraphEx_save
         (ParagraphEx_render (snd (ParagraphEx_merge_dom example_read_back
            (Some \<lparr>pd_text = JStr ''<b>B'', pd_alignment = JUndefined\<rparr>)
            (example_block ''A'' (JStr ''center'')))))
         (snd (ParagraphEx_merge_dom example_read_back
            (Some \<lparr>pd_text = JStr ''<b>B'', pd_alignment = JUndefined\<rparr>)
            (example_block ''A'' (JStr ''center'')))))
       = \<lparr>pd_text = JStr ''A<b>B</b>'', pd_alignment = JStr ''center''\<rparr>
   \<and> ''A'' @ ''<b>B'' \<noteq> ''A<b>B</b>''"
  by (simp add: dom_defs ParagraphEx_save_def ParagraphEx_render_def example_block_def
      example_read_back_def)

text \<open>
  Claim C4, amended. For every block, every data object and every round trip of the
  browser, \<open>merge\<close> returns normally, stores in the text field the markup the block held
  followed by \<open>data.text\<close> (converted to a string by the operator \<open>+\<close>), assigns it as
  the element's markup and leaves the alignment unchanged. The text saved afterwards is
  what the browser reads back for the assigned markup; it is the concatenation whenever
  the browser reads the concatenation back as written.
\<close>

theorem merge_assigns_concatenation:
  assumes "ParagraphEx_merge_dom read_back (Some d) b = (r, b')"
  shows "r = Inr ()
     \<and> pd_text (priv_data b') = JStr (innerHTML (priv_element b) @ ToString (pd_text d))
     \<and> pd_alignment (priv_data b') = pd_alignment (priv_data b)
     \<and> fst (ParagraphEx_save (ParagraphEx_render b') b') =
         \<lparr>pd_text = JStr (read_back (innerHTML (priv_element b) @ ToString (pd_text d))),
          pd_alignment = pd_alignment (fst (ParagraphEx_save (ParagraphEx_render b) b))\<rparr>
     \<and> (read_back (innerHTML (priv_element b) @ ToString (pd_text d))
           = innerHTML (priv_element b) @ ToString (pd_text d)
         \<longrightarrow> pd_text (fst (ParagraphEx_save (ParagraphEx_render b') b'))
               = JStr (innerHTML (priv_element b) @ ToString (pd_text d)))"
  using assms
  by (auto simp: dom_defs ParagraphEx_save_def ParagraphEx_render_def)

text \<open>A block whose text is "A", merged with \<open>{text: "B"}\<close>, saves "AB" and keeps its alignment.\<close>

theorem merge_assigns_concatenation_witness:
  "ParagraphEx_merge_dom example_read_back
       (Some \<lparr>pd_text = JStr ''B'', pd_alignment = JUndefined\<rparr>)
       (example_block ''A'' (JStr ''center''))
     = (Inr (), example_block ''AB'' (JStr ''center''))
   \<and> example_read_back (innerHTML (priv_element (example_block ''A'' (JStr ''center'')))
        @ ToString (pd_text \<lparr>pd_text = JStr ''B'', pd_alignment = JUndefined\<rparr>)) = ''AB''
   \<and> fst (ParagraphEx_save (ParagraphEx_render (example_block ''AB'' (JStr ''center'')))
           (example_block ''AB'' (JStr ''center'')))
       = \<lparr>pd_text = JStr ''AB'', pd_alignment = JStr ''center''\<rparr>"
proof -
  have m: "ParagraphEx_merge_dom example_read_back
       (Some \<lparr>pd_text = JStr ''B'', pd_alignment = JUndefined\<rparr>)
       (example_block ''A'' (JStr ''center''))
     = (Inr (), example_block ''AB'' (JStr ''center''))"
    by (simp add: dom_defs example_block_def example_read_back_def)
  have e: "example_read_back (innerHTML (priv_element (example_block ''A'' (JStr ''center'')))
        @ ToString (pd_text \<lparr>pd_text = JStr ''B'', pd_alignment = JUndefined\<rparr>)) = ''AB''"
    by (simp add: example_block_def example_read_back_def)
  from merge_assigns_concatenation [OF m] m e show ?thesis
    by (simp add: example_block_def ParagraphEx_save_def ParagraphEx_get_data_def Let_def
        ParagraphEx_render_def)
qed

subsection \<open>onPaste\<close>



subsection \<open>onKeyUp\<close>

text \<open>
  Claim C6. On a key-up event whose code is Backspace or Delete, when the element's text
  content is empty, the handler leaves the markup empty and the next \<open>save\<close> returns the
  empty text; an event with any other code leaves the block as it was.
\<close>

theorem onKeyUp_clears_empty_markup:
  "((code e = ''Backspace'' \<or> code e = ''Delete'') \<and> textContent dom_text (priv_element b) = []
     \<longrightarrow> innerHTML (priv_element (ParagraphEx_onKeyUp dom_text e b)) = []
       \<and> pd_text (fst (ParagraphEx_save (ParagraphEx_render (ParagraphEx_onKeyUp dom_text e b))
                         (ParagraphEx_onKeyUp dom_text e b))) = JStr [])
   \<and> (code e \<noteq> ''Backspace'' \<and> code e \<noteq> ''Delete'' \<longrightarrow> ParagraphEx_onKeyUp dom_text e b = b)"
  by (auto simp: ParagraphEx_onKeyUp_def ParagraphEx_save_def ParagraphEx_render_def data_defs)

text \<open>
  A block left with a stray line break by the browser is cleared by Backspace and left
  alone by another key.
\<close>

theorem onKeyUp_clears_empty_markup_witness:
  "(code \<lparr>code = ''Backspace''\<rparr> = ''Backspace'' \<or> code \<lparr>code = ''Backspace''\<rparr> = ''Delete'')
   \<and> textContent (\<lambda>s. if s = ''<br>'' then [] else s)
        (priv_element (example_block ''<br>'' (JStr ''left''))) = []
   \<and> pd_text (fst (ParagraphEx_save
        (ParagraphEx_render (ParagraphEx_onKeyUp (\<lambda>s. if s = ''<br>'' then [] else s)
           \<lparr>code = ''Backspace''\<rparr> (example_block ''<br>'' (JStr ''left''))))
        (ParagraphEx_onKeyUp (\<lambda>s. if s = ''<br>'' then [] else s)
           \<lparr>code = ''Backspace''\<rparr> (example_block ''<br>'' (JStr ''left''))))) = JStr []
   \<and> code \<lparr>code = ''KeyA''\<rparr> \<noteq> ''Backspace'' \<and> code \<lparr>code = ''KeyA''\<rparr> \<noteq> ''Delete''
   \<and> ParagraphEx_onKeyUp (\<lambda>s. if s = ''<br>'' then [] else s) \<lparr>code = ''KeyA''\<rparr>
        (example_block ''<br>'' (JStr ''left'')) = example_block ''<br>'' (JStr ''left'')"
  using onKeyUp_clears_empty_markup
    [of "\<lparr>code = ''Backspace''\<rparr>" "\<lambda>s. if s = ''<br>'' then [] else s"
        "example_block ''<br>'' (JStr ''left'')"]
    onKeyUp_clears_empty_markup
    [of "\<lparr>code = ''KeyA''\<rparr>" "\<lambda>s. if s = ''<br>'' then [] else s"
        "example_block ''<br>'' (JStr ''left'')"]
  by (simp add: textContent_def example_block_def)

subsection \<open>The two variants\<close>

text \<open>
  Claim C10. The classes \<open>Paragraph\<close> and \<open>ParagraphEx\<close> agree on the data path: their
  constructors, \<open>validate\<close>, \<open>merge\<close>, \<open>save\<close>, \<open>onPaste\<close> and \<open>onKeyUp\<close> are the same
  functions of input and block state. The state compared is the \<open>block\<close> record; the
  list \<open>_tunesButtons\<close>, which differs between the classes, belongs to the settings
  panel.
\<close>

theorem variants_agree_on_data_path:
  "Paragraph_constructor = ParagraphEx_constructor
   \<and> Paragraph_validate = ParagraphEx_validate
   \<and> Paragraph_merge = ParagraphEx_merge
   \<and> Paragraph_save = ParagraphEx_save
   \<and> Paragraph_onPaste = ParagraphEx_onPaste
   \<and> Paragraph_onKeyUp = ParagraphEx_onKeyUp"
proof -
  have g: "Paragraph_get_data = ParagraphEx_get_data"
    by (simp add: fun_eq_iff Paragraph_get_data_def ParagraphEx_get_data_def)
  have s: "Paragraph_set_data = ParagraphEx_set_data"
    by (simp add: fun_eq_iff Paragraph_set_data_def ParagraphEx_set_data_def)
  have d: "Paragraph_drawView = ParagraphEx_drawView"
    by (simp add: fun_eq_iff Paragraph_drawView_def ParagraphEx_drawView_def)
  have da: "Paragraph_DEFAULT_ALIGNMENT = ParagraphEx_DEFAULT_ALIGNMENT"
    by (simp add: Paragraph_DEFAULT_ALIGNMENT_def Paragraph_ALIGNMENTS_def
        ParagraphEx_DEFAULT_ALIGNMENT_def)
  have dp: "Paragraph_DEFAULT_PLACEHOLDER = ParagraphEx_DEFAULT_PLACEHOLDER"
    by (simp add: Paragraph_DEFAULT_PLACEHOLDER_def ParagraphEx_DEFAULT_PLACEHOLDER_def)
  have 1: "Paragraph_constructor = ParagraphEx_constructor"
    unfolding fun_eq_iff Paragraph_constructor_def ParagraphEx_constructor_def g s d da dp
    by simp
  have 2: "Paragraph_validate = ParagraphEx_validate"
    unfolding fun_eq_iff Paragraph_validate_def ParagraphEx_validate_def by simp
  have 3: "Paragraph_merge = ParagraphEx_merge"
    unfolding fun_eq_iff Paragraph_merge_def ParagraphEx_merge_def g s by simp
  have 4: "Paragraph_save = ParagraphEx_save"
    unfolding fun_eq_iff Paragraph_save_def ParagraphEx_save_def g by simp
  have 5: "Paragraph_onPaste = ParagraphEx_onPaste"
    unfolding fun_eq_iff Paragraph_onPaste_def ParagraphEx_onPaste_def s da by simp
  have 6: "Paragraph_onKeyUp = ParagraphEx_onKeyUp"
    unfolding fun_eq_iff Paragraph_onKeyUp_def ParagraphEx_onKeyUp_def by simp
  from 1 2 3 4 5 6 show ?thesis by simp
qed

subsection \<open>The stored fields\<close>

lemma ParagraphEx_setAlignment_data:
  "priv_data (snd (ParagraphEx_setAlignment g v b)) =
     \<lparr>pd_text = JStr (innerHTML (priv_element b)), pd_alignment = v\<rparr>"
  by (simp add: ParagraphEx_setAlignment_def data_defs split: option.splits sum.splits)

text \<open>
  Claim C2, as the claim states it, fails: nothing checks an alignment against the four
  values. A block constructed with the unknown alignment \<open>middle\<close> stores \<open>middle\<close>.
\<close>

theorem unknown_alignment_is_stored:
  "map_sum id (pd_alignment \<circ> priv_data)
     (ParagraphEx_constructor (Some \<lparr>pd_text = JStr ''A'', pd_alignment = JStr ''middle''\<rparr>)
        (Some example_config) example_api (JBool False)) = Inr (JStr ''middle'')
   \<and> ''middle'' \<notin> set alignment_names"
  by (simp add: ParagraphEx_constructor_def ParagraphEx_drawView_def classList_add_def
      append_token_def createElement_def css_alignment_def example_api_def object_prototype_names_def
      example_config_def data_defs ParagraphEx_DEFAULT_PLACEHOLDER_def
      ParagraphEx_DEFAULT_ALIGNMENT_def ascii_whitespace_def alignment_names_def)

text \<open>
  Claim C2, amended. An alignment supplied in the input data (any truthy value) is stored
  unchanged by construction, and data assignment stores the object it is given; \<open>merge\<close>
  keeps the stored alignment, \<open>setAlignment\<close> stores its argument, and \<open>onPaste\<close> stores
  the pasted \<open>text-align\<close> value, else \<open>config.defaultAlignment\<close>, else \<open>'left'\<close>. The text
  read through the \<open>data\<close> getter and returned by \<open>save\<close> is always a string, and after
  \<open>merge\<close>, \<open>setAlignment\<close> and \<open>onPaste\<close> the stored text is a string.
\<close>

theorem stored_fields_after_operations:
  "(ParagraphEx_constructor (Some d) cfg a ro = Inr b \<and> truthy (pd_alignment d)
      \<longrightarrow> pd_alignment (priv_data b) = pd_alignment d)
   \<and> priv_data (ParagraphEx_set_data (Some d) b0) = d
   \<and> pd_alignment (priv_data (snd (ParagraphEx_merge (Some d) b0))) = pd_alignment (priv_data b0)
   \<and> pd_alignment (priv_data (snd (ParagraphEx_setAlignment g v b0))) = v
   \<and> pd_alignment (priv_data (ParagraphEx_onPaste event b0)) =
       (if style_textAlign (detail_data event) \<noteq> [] then JStr (style_textAlign (detail_data event))
        else if truthy (defaultAlignment (config b0)) then defaultAlignment (config b0)
        else JStr ''left'')
   \<and> pd_text (fst (ParagraphEx_get_data b0)) = JStr (innerHTML (priv_element b0))
   \<and> pd_text (fst (ParagraphEx_save el b0)) = JStr (innerHTML el)
   \<and> pd_text (priv_data (snd (ParagraphEx_merge (Some d) b0)))
       = JStr (innerHTML (priv_element b0) @ ToString (pd_text d))
   \<and> pd_text (priv_data (snd (ParagraphEx_setAlignment g v b0))) = JStr (innerHTML (priv_element b0))
   \<and> pd_text (priv_data (ParagraphEx_onPaste event b0)) = JStr (innerHTML (detail_data event))"
proof -
  have 1: "ParagraphEx_constructor (Some d) cfg a ro = Inr b \<and> truthy (pd_alignment d)
      \<longrightarrow> pd_alignment (priv_data b) = pd_alignment d"
    using ParagraphEx_constructor_Inr [of "Some d" cfg a ro b] by auto
  have 2: "priv_data (ParagraphEx_set_data (Some d) b0) = d"
    by (simp add: ParagraphEx_set_data_fields)
  have 3: "priv_data (snd (ParagraphEx_merge (Some d) b0)) =
      \<lparr>pd_text = JStr (innerHTML (priv_element b0) @ ToString (pd_text d)),
       pd_alignment = pd_alignment (priv_data b0)\<rparr>"
    by (simp add: ParagraphEx_merge_def data_defs string_concat_def)
  have 4: "priv_data (ParagraphEx_onPaste event b0) =
     \<lparr>pd_text = JStr (innerHTML (detail_data event)),
      pd_alignment =
       (if style_textAlign (detail_data event) \<noteq> [] then JStr (style_textAlign (detail_data event))
        else if truthy (defaultAlignment (config b0)) then defaultAlignment (config b0)
        else JStr ''left'')\<rparr>"
    by (simp add: ParagraphEx_onPaste_def data_defs ParagraphEx_DEFAULT_ALIGNMENT_def)
  have 5: "pd_text (fst (ParagraphEx_get_data b0)) = JStr (innerHTML (priv_element b0))"
    "pd_text (fst (ParagraphEx_save el b0)) = JStr (innerHTML el)"
    by (simp_all add: ParagraphEx_save_def data_defs)
  from 1 2 3 4 5 show ?thesis
    by (simp add: ParagraphEx_setAlignment_data)
qed

text \<open>The example block is constructed from data with the alignment \<open>left\<close> and keeps it.\<close>

theorem stored_fields_after_operations_witness:
  "ParagraphEx_constructor (Some \<lparr>pd_text = JStr ''A'', pd_alignment = JStr ''left''\<rparr>)
       (Some example_config) example_api (JBool False) = Inr (example_block ''A'' (JStr ''left''))
   \<and> truthy (pd_alignment \<lparr>pd_text = JStr ''A'', pd_alignment = JStr ''left''\<rparr>)
   \<and> pd_alignment (priv_data (example_block ''A'' (JStr ''left''))) = JStr ''left''
   \<and> pd_alignment (priv_data (snd (ParagraphEx_setAlignment (Some []) (JStr ''middle'')
        (example_block ''A'' (JStr ''left''))))) = JStr ''middle''"
  using stored_fields_after_operations
    [of "\<lparr>pd_text = JStr ''A'', pd_alignment = JStr ''left''\<rparr>" "Some example_config" example_api
        "JBool False" "example_block ''A'' (JStr ''left'')" "example_block ''A'' (JStr ''left'')"
        "Some []" "JStr ''middle''"]
    example_constructed
  by simp

subsection \<open>The alignment controls\<close>

lemma toggle_valid:
  "validate_tokens [t] = None \<Longrightarrow>
     classList_toggle t f cl = Inr (if f then append_token t cl else removeAll t cl)"
  by (simp add: classList_toggle_def)

lemma length4: "length xs = 4 \<Longrightarrow> \<exists>a b c d. xs = [a, b, c, d]"
  by (auto simp: numeral_eq_Suc length_Suc_conv)

lemmas pdata_defs = Paragraph_get_data_def Paragraph_set_data_def set_innerHTML_def js_or_def Let_def

lemma updateButtons_one:
  assumes valid: "validate_tokens [css_settingsButtonActive (priv_CSS b)] = None"
    and al: "pd_alignment (priv_data b) = JStr n"
    and n: "n \<in> set alignment_names"
  shows "map_sum id (active_controls (css_settingsButtonActive (priv_CSS b)))
           (fst (Paragraph_updateButtons 0 [e0, e1, e2, e3] b)) = Inr [n]
       \<and> root_alignments (priv_element (snd (Paragraph_updateButtons 0 [e0, e1, e2, e3] b))) = [n]
       \<and> pd_alignment (priv_data (snd (Paragraph_updateButtons 0 [e0, e1, e2, e3] b))) = JStr n"
proof -
  from n have "n = ''left'' \<or> n = ''center'' \<or> n = ''right'' \<or> n = ''justify''"
    by (simp add: alignment_names_def)
  then show ?thesis
    using valid al
    by (elim disjE)
       (simp_all add: Paragraph_tunesButtons_def Paragraph_get_data_def Let_def toggle_valid
         css_alignment_def alignment_tokens_valid active_controls_def root_alignments_def
         alignment_names_def set_append_token del: validate_tokens.simps)
qed

lemma Paragraph_toggleTune_fields:
  "pd_alignment (priv_data (Paragraph_toggleTune tn b)) =
     (if pd_alignment (priv_data b) = JStr tn then defaultAlignment (config b) else JStr tn)"
  "priv_CSS (Paragraph_toggleTune tn b) = priv_CSS b"
  by (simp_all add: Paragraph_toggleTune_def Paragraph_get_data_def Let_def)

lemma Paragraph_click_one:
  assumes "index < length Paragraph_tunesButtons"
    and "length buttons = length Paragraph_tunesButtons"
    and valid: "validate_tokens [css_settingsButtonActive (priv_CSS b)] = None"
    and target: "(if pd_alignment (priv_data b) = JStr (tn_name (Paragraph_tunesButtons ! index))
           then defaultAlignment (config b)
           else JStr (tn_name (Paragraph_tunesButtons ! index))) = JStr nm"
    and nm: "nm \<in> set alignment_names"
  shows "map_sum id (active_controls (css_settingsButtonActive (priv_CSS b)))
           (fst (Paragraph_click index buttons b)) = Inr [nm]
       \<and> root_alignments (priv_element (snd (Paragraph_click index buttons b))) = [nm]
       \<and> pd_alignment (priv_data (snd (Paragraph_click index buttons b))) = JStr nm"
proof -
  from assms(2) have "length buttons = 4"
    by (simp add: Paragraph_tunesButtons_def)
  then obtain e0 e1 e2 e3 where bs: "buttons = [e0, e1, e2, e3]"
    using length4 by blast
  let ?b = "Paragraph_toggleTune (tn_name (Paragraph_tunesButtons ! index)) b"
  have al: "pd_alignment (priv_data ?b) = JStr nm"
    using target by (simp add: Paragraph_toggleTune_fields)
  have v: "validate_tokens [css_settingsButtonActive (priv_CSS ?b)] = None"
    using valid by (simp add: Paragraph_toggleTune_fields del: validate_tokens.simps)
  have c: "Paragraph_click index buttons b = Paragraph_updateButtons 0 [e0, e1, e2, e3] ?b"
    using assms(1) by (simp add: Paragraph_click_def bs)
  from updateButtons_one [OF v al nm, of e0 e1 e2 e3] show ?thesis
    by (simp add: c Paragraph_toggleTune_fields)
qed

lemma ParagraphEx_renderSettings_active:
  assumes "pd_alignment (priv_data b) = JStr v" and "v \<in> set alignment_names"
  shows "map mi_onActivate (filter mi_isActive (ParagraphEx_renderSettings b)) = [v]"
proof -
  from assms(2) have "v = ''left'' \<or> v = ''center'' \<or> v = ''right'' \<or> v = ''justify''"
    by (simp add: alignment_names_def)
  then show ?thesis
    using assms(1)
    by (elim disjE)
       (simp_all add: ParagraphEx_renderSettings_def ParagraphEx_currentAlignment_def
         ParagraphEx_tunesButtons_def)
qed

lemma ParagraphEx_renderSettings_values:
  "item \<in> set (ParagraphEx_renderSettings b) \<Longrightarrow> mi_onActivate item \<in> set alignment_names"
  by (auto simp: ParagraphEx_renderSettings_def ParagraphEx_tunesButtons_def alignment_names_def)

text \<open>
  Claim C7, as the claim states it, fails in the class \<open>Paragraph\<close>: with no configured
  default alignment, clicking the control that is active resets the alignment to
  \<open>config.defaultAlignment\<close>, which is \<open>undefined\<close>; afterwards no control is active and
  no alignment class is on the root element.
\<close>

theorem reclick_leaves_no_control_active:
  "Paragraph_constructor (Some \<lparr>pd_text = JStr ''A'', pd_alignment = JStr ''left''\<rparr>)
       (Some example_config) example_api (JBool False) = Inr (example_block ''A'' (JStr ''left''))
   \<and> map_sum id (active_controls ''cdx-settings-button--active'')
       (fst (Paragraph_renderSettings (example_block ''A'' (JStr ''left'')))) = Inr [''left'']
   \<and> map_sum id (active_controls ''cdx-settings-button--active'')
       (fst (Paragraph_click_after_render 0 (example_block ''A'' (JStr ''left'')))) = Inr []
   \<and> root_alignments
       (priv_element (snd (Paragraph_click_after_render 0 (example_block ''A'' (JStr ''left''))))) = []"
proof -
  have c: "Paragraph_constructor (Some \<lparr>pd_text = JStr ''A'', pd_alignment = JStr ''left''\<rparr>)
       (Some example_config) example_api (JBool False) = Inr (example_block ''A'' (JStr ''left''))"
    by (simp add: Paragraph_constructor_def Paragraph_drawView_def classList_add_def
      append_token_def createElement_def css_alignment_def example_block_def example_api_def
      example_config_def pdata_defs Paragraph_DEFAULT_PLACEHOLDER_def
      Paragraph_DEFAULT_ALIGNMENT_def Paragraph_ALIGNMENTS_def ascii_whitespace_def)
  have r: "Paragraph_renderSettings (example_block ''A'' (JStr ''left'')) =
      (Inr [createElement\<lparr>innerHTML := ''IconAlignLeft'',
              classList := [''cdx-settings-button'', ''cdx-settings-button--active'']\<rparr>,
            createElement\<lparr>innerHTML := ''IconAlignCenter'', classList := [''cdx-settings-button'']\<rparr>,
            createElement\<lparr>innerHTML := ''IconAlignRight'', classList := [''cdx-settings-button'']\<rparr>,
            createElement\<lparr>innerHTML := ''IconAlignJustify'', classList := [''cdx-settings-button'']\<rparr>],
       example_block ''A'' (JStr ''left''))"
    by (simp add: Paragraph_renderSettings_def Paragraph_tunesButtons_def Paragraph_renderButton_def
        classList_add_def classList_toggle_def append_token_def createElement_def example_block_def
        example_config_def pdata_defs ascii_whitespace_def)
  have k: "Paragraph_click 0
      [createElement\<lparr>innerHTML := ''IconAlignLeft'',
              classList := [''cdx-settings-button'', ''cdx-settings-button--active'']\<rparr>,
            createElement\<lparr>innerHTML := ''IconAlignCenter'', classList := [''cdx-settings-button'']\<rparr>,
            createElement\<lparr>innerHTML := ''IconAlignRight'', classList := [''cdx-settings-button'']\<rparr>,
            createElement\<lparr>innerHTML := ''IconAlignJustify'', classList := [''cdx-settings-button'']\<rparr>]
      (example_block ''A'' (JStr ''left'')) =
      (Inr [createElement\<lparr>innerHTML := ''IconAlignLeft'', classList := [''cdx-settings-button'']\<rparr>,
            createElement\<lparr>innerHTML := ''IconAlignCenter'', classList := [''cdx-settings-button'']\<rparr>,
            createElement\<lparr>innerHTML := ''IconAlignRight'', classList := [''cdx-settings-button'']\<rparr>,
            createElement\<lparr>innerHTML := ''IconAlignJustify'', classList := [''cdx-settings-button'']\<rparr>],
       (example_block ''A'' JUndefined)
         \<lparr>priv_element := (priv_element (example_block ''A'' JUndefined))
             \<lparr>classList := [''ce-paragraph'', ''cdx-block'']\<rparr>\<rparr>)"
    by (simp add: Paragraph_click_def Paragraph_toggleTune_def Paragraph_tunesButtons_def
        classList_toggle_def append_token_def createElement_def example_block_def
        example_config_def Paragraph_get_data_def Let_def css_alignment_def ascii_whitespace_def)
  have a: "Paragraph_click_after_render 0 (example_block ''A'' (JStr ''left'')) =
      (Inr [createElement\<lparr>innerHTML := ''IconAlignLeft'', classList := [''cdx-settings-button'']\<rparr>,
            createElement\<lparr>innerHTML := ''IconAlignCenter'', classList := [''cdx-settings-button'']\<rparr>,
            createElement\<lparr>innerHTML := ''IconAlignRight'', classList := [''cdx-settings-button'']\<rparr>,
            createElement\<lparr>innerHTML := ''IconAlignJustify'', classList := [''cdx-settings-button'']\<rparr>],
       (example_block ''A'' JUndefined)
         \<lparr>priv_element := (priv_element (example_block ''A'' JUndefined))
             \<lparr>classList := [''ce-paragraph'', ''cdx-block'']\<rparr>\<rparr>)"
    by (simp add: Paragraph_click_after_render_def r k)
  show ?thesis
    by (simp add: c r a active_controls_def root_alignments_def
        Paragraph_tunesButtons_def alignment_names_def createElement_def css_alignment_def)
qed

text \<open>
  Claim C7, amended. In \<open>Paragraph\<close>, a click on a control sets the alignment to the
  control's name, or, when that control is the current alignment, to
  \<open>config.defaultAlignment\<close>; whenever the alignment so selected is one of the four values,
  exactly the control of that name is active afterwards and exactly its modifier class,
  among the four, is on the root element. In \<open>ParagraphEx\<close>, activating a menu entry
  stores its value as the alignment, and \<open>renderSettings\<close> then reports exactly that
  entry as active, also when it was active before.
\<close>

theorem alignment_controls_after_activation:
  "(index < length Paragraph_tunesButtons \<and> length buttons = length Paragraph_tunesButtons
      \<and> validate_tokens [css_settingsButtonActive (priv_CSS b)] = None
      \<and> (if pd_alignment (priv_data b) = JStr (tn_name (Paragraph_tunesButtons ! index))
          then defaultAlignment (config b)
          else JStr (tn_name (Paragraph_tunesButtons ! index))) = JStr nm
      \<and> nm \<in> set alignment_names
     \<longrightarrow> map_sum id (active_controls (css_settingsButtonActive (priv_CSS b)))
           (fst (Paragraph_click index buttons b)) = Inr [nm]
       \<and> root_alignments (priv_element (snd (Paragraph_click index buttons b))) = [nm]
       \<and> pd_alignment (priv_data (snd (Paragraph_click index buttons b))) = JStr nm)
   \<and> (item \<in> set (ParagraphEx_renderSettings b0)
     \<longrightarrow> pd_alignment (priv_data (snd (ParagraphEx_activate g item b1))) = JStr (mi_onActivate item)
       \<and> map mi_onActivate
           (filter mi_isActive (ParagraphEx_renderSettings (snd (ParagraphEx_activate g item b1))))
         = [mi_onActivate item])"
proof (intro conjI impI)
  assume a: "index < length Paragraph_tunesButtons \<and> length buttons = length Paragraph_tunesButtons
      \<and> validate_tokens [css_settingsButtonActive (priv_CSS b)] = None
      \<and> (if pd_alignment (priv_data b) = JStr (tn_name (Paragraph_tunesButtons ! index))
          then defaultAlignment (config b)
          else JStr (tn_name (Paragraph_tunesButtons ! index))) = JStr nm
      \<and> nm \<in> set alignment_names"
  then have r: "map_sum id (active_controls (css_settingsButtonActive (priv_CSS b)))
           (fst (Paragraph_click index buttons b)) = Inr [nm]
       \<and> root_alignments (priv_element (snd (Paragraph_click index buttons b))) = [nm]
       \<and> pd_alignment (priv_data (snd (Paragraph_click index buttons b))) = JStr nm"
    by (intro Paragraph_click_one) blast+
  from r show "map_sum id (active_controls (css_settingsButtonActive (priv_CSS b)))
           (fst (Paragraph_click index buttons b)) = Inr [nm]" by blast
  from r show "root_alignments (priv_element (snd (Paragraph_click index buttons b))) = [nm]"
    by blast
  from r show "pd_alignment (priv_data (snd (Paragraph_click index buttons b))) = JStr nm"
    by blast
next
  assume i: "item \<in> set (ParagraphEx_renderSettings b0)"
  show al: "pd_alignment (priv_data (snd (ParagraphEx_activate g item b1))) = JStr (mi_onActivate item)"
    by (simp add: ParagraphEx_activate_def ParagraphEx_setAlignment_data)
  from ParagraphEx_renderSettings_active [OF al ParagraphEx_renderSettings_values [OF i]]
  show "map mi_onActivate
           (filter mi_isActive (ParagraphEx_renderSettings (snd (ParagraphEx_activate g item b1))))
         = [mi_onActivate item]" .
qed

text \<open>
  Clicking \<open>right\<close> on a left-aligned block, clicking the active \<open>left\<close> under the
  configured default \<open>center\<close>, and activating the menu entry \<open>right\<close>.
\<close>

theorem alignment_controls_after_activation_witness:
  "2 < length Paragraph_tunesButtons \<and> length example_buttons = length Paragraph_tunesButtons
   \<and> validate_tokens [css_settingsButtonActive (priv_CSS (example_block ''A'' (JStr ''left'')))] = None
   \<and> map_sum id (active_controls ''cdx-settings-button--active'')
        (fst (Paragraph_click 2 example_buttons (example_block ''A'' (JStr ''left'')))) = Inr [''right'']
   \<and> root_alignments
        (priv_element (snd (Paragraph_click 2 example_buttons (example_block ''A'' (JStr ''left'')))))
       = [''right'']
   \<and> map_sum id (active_controls ''cdx-settings-button--active'')
        (fst (Paragraph_click 0 example_buttons example_block_centered)) = Inr [''center'']
   \<and> root_alignments (priv_element (snd (Paragraph_click 0 example_buttons example_block_centered)))
       = [''center'']
   \<and> example_item \<in> set (ParagraphEx_renderSettings (example_block ''A'' (JStr ''left'')))
   \<and> map mi_onActivate (filter mi_isActive (ParagraphEx_renderSettings
        (snd (ParagraphEx_activate (Some []) example_item (example_block ''A'' (JStr ''left''))))))
       = [''right'']"
proof -
  have h1: "2 < length Paragraph_tunesButtons \<and> (0::nat) < length Paragraph_tunesButtons
     \<and> length example_buttons = length Paragraph_tunesButtons"
    by (simp add: Paragraph_tunesButtons_def example_buttons_def)
  have h2: "validate_tokens [css_settingsButtonActive (priv_CSS (example_block ''A'' (JStr ''left'')))] = None"
    "validate_tokens [css_settingsButtonActive (priv_CSS example_block_centered)] = None"
    by (simp_all add: example_block_def example_block_centered_def ascii_whitespace_def)
  have h3: "(if pd_alignment (priv_data (example_block ''A'' (JStr ''left'')))
                = JStr (tn_name (Paragraph_tunesButtons ! 2))
             then defaultAlignment (config (example_block ''A'' (JStr ''left'')))
             else JStr (tn_name (Paragraph_tunesButtons ! 2))) = JStr ''right''"
    "(if pd_alignment (priv_data example_block_centered) = JStr (tn_name (Paragraph_tunesButtons ! 0))
             then defaultAlignment (config example_block_centered)
             else JStr (tn_name (Paragraph_tunesButtons ! 0))) = JStr ''center''"
    by (simp_all add: example_block_def example_block_centered_def Paragraph_tunesButtons_def
        example_config_def)
  have h4: "''right'' \<in> set alignment_names" "''center'' \<in> set alignment_names"
    by (simp_all add: alignment_names_def)
  have h5: "example_item \<in> set (ParagraphEx_renderSettings (example_block ''A'' (JStr ''left'')))"
    by (simp add: ParagraphEx_renderSettings_def ParagraphEx_tunesButtons_def example_item_def
        ParagraphEx_currentAlignment_def example_block_def example_api_def)
  have a: "css_settingsButtonActive (priv_CSS (example_block ''A'' (JStr ''left'')))
             = ''cdx-settings-button--active''"
    "css_settingsButtonActive (priv_CSS example_block_centered) = ''cdx-settings-button--active''"
    "mi_onActivate example_item = ''right''"
    by (simp_all add: example_block_def example_block_centered_def example_item_def)
  from alignment_controls_after_activation
         [of 2 example_buttons "example_block ''A'' (JStr ''left'')" "''right''" example_item
             "example_block ''A'' (JStr ''left'')" "Some []" "example_block ''A'' (JStr ''left'')"]
       alignment_controls_after_activation
         [of 0 example_buttons example_block_centered "''center''" example_item
             "example_block ''A'' (JStr ''left'')" "Some []" "example_block ''A'' (JStr ''left'')"]
       h1 h2 h3 h4 h5
  show ?thesis
    by (simp add: a del: validate_tokens.simps)
qed

end
